theory Spec2Isabelle
  imports Main "HOL-Library.Word"
begin

unbundle bit_operations_syntax

section \<open>Values, exceptions and the I2C bus\<close>

type_synonym byte = "8 word"

text \<open>
  The exceptions the driver can meet. \<open>OSError\<close> is what the bus raises;
  \<open>StructError\<close> stands for \<open>struct.unpack\<close> given a buffer of the wrong size.
\<close>

datatype exn = OSError | IndexError | StructError | UnicodeError | ValueError

text \<open>
  The values stored in the driver's dictionaries. A float obtained by
  \<open>struct.unpack('>f', chunk)\<close> is represented by its IEEE-754 single precision
  bit pattern.
\<close>

datatype pyval = PNone | PBool bool | PInt int | PFloat "32 word"

type_synonym pydict = "string \<rightharpoonup> pyval"

text \<open>
  The bus is outside the driver. Its state records every call made to it, in order,
  and holds the outcomes of the calls to come: for \<open>writeto\<close>, \<open>True\<close> means the
  call raises (an exhausted plan means success); for \<open>readfrom\<close>, \<open>None\<close> or an
  exhausted plan means the call raises, \<open>Some bs\<close> that it returns \<open>bs\<close>. The
  number of bytes asked for is recorded and does not cut or pad \<open>bs\<close>: the
  properties below state the length of the frame where it matters.
\<close>

record i2c_bus =
  write_log :: "(int \<times> byte list) list"
  read_log :: "(int \<times> nat) list"
  write_plan :: "bool list"
  read_plan :: "byte list option list"

definition writeto :: "i2c_bus \<Rightarrow> int \<Rightarrow> byte list \<Rightarrow> (exn + unit) \<times> i2c_bus" where
  "writeto bus addr buf =
     (let bus' = bus\<lparr>write_log := write_log bus @ [(addr, buf)]\<rparr>
      in case write_plan bus of
           [] \<Rightarrow> (Inr (), bus')
         | fails # plan \<Rightarrow>
             (if fails then Inl OSError else Inr (), bus'\<lparr>write_plan := plan\<rparr>))"

definition readfrom :: "i2c_bus \<Rightarrow> int \<Rightarrow> nat \<Rightarrow> (exn + byte list) \<times> i2c_bus" where
  "readfrom bus addr nbytes =
     (let bus' = bus\<lparr>read_log := read_log bus @ [(addr, nbytes)]\<rparr>
      in case read_plan bus of
           [] \<Rightarrow> (Inl OSError, bus')
         | r # plan \<Rightarrow>
             (case r of None \<Rightarrow> Inl OSError | Some bs \<Rightarrow> Inr bs,
              bus'\<lparr>read_plan := plan\<rparr>))"

text \<open>\<open>bytes(xs)\<close> for a list of Python integers.\<close>

definition py_bytes :: "int list \<Rightarrow> exn + byte list" where
  "py_bytes xs =
     (if list_all (\<lambda>x. 0 \<le> x \<and> x < 256) xs then Inr (map word_of_int xs)
      else Inl ValueError)"

section \<open>Class attributes of \<open>SPS30_I2C\<close>\<close>

definition SPS_ADDR :: int where "SPS_ADDR = 0x69"

definition CMD_READ_MEASURED_VALUES :: "int list" where
  "CMD_READ_MEASURED_VALUES = [0x03, 0x00, 0x34]"

definition CMD_WAKEUP :: "int list" where
  "CMD_WAKEUP = [0x11, 0x03]"

definition CMD_SERIAL_NUMBER :: "int list" where
  "CMD_SERIAL_NUMBER = [0xD0, 0x33]"

definition CMD_FIRMWARE_VERSION :: "int list" where
  "CMD_FIRMWARE_VERSION = [0xD1, 0x00]"

definition CMD_READ_STATUS_REGISTER :: "int list" where
  "CMD_READ_STATUS_REGISTER = [0xD2, 0x06]"

definition values_keys :: "string list" where
  "values_keys =
     [''mc_pm1.0'', ''mc_pm2.5'', ''mc_pm4.0'', ''mc_pm10.0'', ''pc_pm0.5'',
      ''pc_pm1.0'', ''pc_pm2.5'', ''pc_pm4.0'', ''pc_pm10.0'', ''typical_size'']"

definition NBYTES_MEASURED_VALUES_FLOAT :: nat where
  "NBYTES_MEASURED_VALUES_FLOAT = 60"

definition NBYTES_MEASURED_VALUES_INTEGER :: nat where
  "NBYTES_MEASURED_VALUES_INTEGER = 30"

definition NBYTES_SERIAL_NUMBER :: nat where
  "NBYTES_SERIAL_NUMBER = 48"

definition NBYTES_FIRMWARE_VERSION :: nat where
  "NBYTES_FIRMWARE_VERSION = 3"

definition NBYTES_READ_STATUS_REGISTER :: nat where
  "NBYTES_READ_STATUS_REGISTER = 6"

text \<open>
  The class attributes that the methods mutate in place. They are bound once, in the
  class body, and belong to the class object: there is one of each, whatever the
  number of instances.
\<close>

record SPS30_class =
  CMD_START_MEASUREMENT :: "int list"
  dict_values :: pydict
  dict_register :: pydict
  dict_firmware_version :: pydict

definition class_body :: SPS30_class where
  "class_body =
     \<lparr>CMD_START_MEASUREMENT = [0x00, 0x10],
      dict_values = map_of (map (\<lambda>k. (k, PNone)) values_keys),
      dict_register =
        [''Fan speed error'' \<mapsto> PBool False, ''Laser error'' \<mapsto> PBool False,
         ''Fan error'' \<mapsto> PBool False],
      dict_firmware_version = [''major'' \<mapsto> PNone, ''minor'' \<mapsto> PNone]\<rparr>"

text \<open>
  The attributes \<open>__init__\<close> binds on the instance (the bus handle \<open>self.i2c\<close> is
  passed to each operation as the bus state). \<open>datatype_fmt\<close> is \<open>self.datatype\<close>.
\<close>

record SPS30_I2C =
  datatype_init :: string
  datatype_fmt :: int
  nbytes_measured_values :: nat

definition init :: "string \<Rightarrow> SPS30_I2C" where
  "init dt =
     (if dt = ''FP32''
      then \<lparr>datatype_init = dt, datatype_fmt = 0x03,
            nbytes_measured_values = NBYTES_MEASURED_VALUES_FLOAT\<rparr>
      else \<lparr>datatype_init = dt, datatype_fmt = 0x05,
            nbytes_measured_values = NBYTES_MEASURED_VALUES_INTEGER\<rparr>)"

text \<open>
  Attribute lookup through an instance. \<open>__init__\<close> binds none of the three
  dictionaries on the instance and no method rebinds them (they are only updated by
  item assignment), so \<open>self.dict_values\<close>, \<open>self.dict_register\<close> and
  \<open>self.dict_firmware_version\<close> resolve to the class attributes.
\<close>

definition self_dict_values :: "SPS30_I2C \<Rightarrow> SPS30_class \<Rightarrow> pydict" where
  "self_dict_values self cls = dict_values cls"

definition self_dict_register :: "SPS30_I2C \<Rightarrow> SPS30_class \<Rightarrow> pydict" where
  "self_dict_register self cls = dict_register cls"

definition self_dict_firmware_version :: "SPS30_I2C \<Rightarrow> SPS30_class \<Rightarrow> pydict" where
  "self_dict_firmware_version self cls = dict_firmware_version cls"

text \<open>\<open>self.i2c.writeto(self._SPS_ADDR, bytes(cmd))\<close>.\<close>

definition send :: "i2c_bus \<Rightarrow> int list \<Rightarrow> (exn + unit) \<times> i2c_bus" where
  "send bus cmd =
     (case py_bytes cmd of
        Inl e \<Rightarrow> (Inl e, bus)
      | Inr buf \<Rightarrow> writeto bus SPS_ADDR buf)"

section \<open>CRC-8\<close>

text \<open>
  One pass of the inner loop of \<open>_crc8\<close>: Python integers are unbounded, so the
  shift is followed by the mask \<open>crc &= 0x0000FF\<close> of the source.
\<close>

definition crc8_shift :: "int \<Rightarrow> int" where
  "crc8_shift crc =
     (if crc AND 0x80 \<noteq> 0 then (push_bit 1 crc XOR 0x31) AND 0xFF
      else push_bit 1 crc AND 0xFF)"

definition crc8_byte :: "int \<Rightarrow> int \<Rightarrow> int" where
  "crc8_byte crc b = fold (\<lambda>_. crc8_shift) [0..<8] (crc XOR b)"

definition crc8 :: "int list \<Rightarrow> int" where
  "crc8 data = foldl crc8_byte 0xFF data"

text \<open>
  The loop of \<open>_verify_crc\<close> over \<open>range(0, len(data), 3)\<close>; the argument is
  \<open>data[i:]\<close>. It is entered only when the length is a multiple of 3.
\<close>

fun verify_groups :: "byte list \<Rightarrow> bool" where
  "verify_groups (b0 # b1 # checksum # rest) =
     (if crc8 [uint b0, uint b1] \<noteq> uint checksum then False else verify_groups rest)"
| "verify_groups _ = True"

definition verify_crc :: "byte list \<Rightarrow> bool" where
  "verify_crc data = (if length data mod 3 \<noteq> 0 then False else verify_groups data)"

text \<open>A frame assembled from byte pairs, each followed by its checksum.\<close>

definition crc_group :: "byte \<times> byte \<Rightarrow> byte list" where
  "crc_group p = [fst p, snd p, word_of_int (crc8 [uint (fst p), uint (snd p)])]"

definition frame_of_pairs :: "(byte \<times> byte) list \<Rightarrow> byte list" where
  "frame_of_pairs ps = concat (map crc_group ps)"

section \<open>Housekeeping and measurement commands\<close>

text \<open>
  \<open>wakeup\<close>: both writes are inside one \<open>try\<close>; an exception of the first leaves
  the block.
\<close>

definition wakeup :: "SPS30_I2C \<Rightarrow> i2c_bus \<Rightarrow> i2c_bus" where
  "wakeup self bus =
     (case send bus CMD_WAKEUP of
        (Inl e, bus1) \<Rightarrow> bus1
      | (Inr u, bus1) \<Rightarrow> snd (send bus1 CMD_WAKEUP))"

text \<open>
  \<open>start_measurement\<close>: \<open>data\<close> is the list object bound to the class attribute
  \<open>CMD_START_MEASUREMENT\<close>, so \<open>extend\<close> and \<open>append\<close> update that attribute.
  \<open>data[2:4]\<close> is \<open>take 2 (drop 2 data)\<close>. Any exception of the write is caught.
\<close>

definition start_measurement ::
  "SPS30_I2C \<Rightarrow> SPS30_class \<Rightarrow> i2c_bus \<Rightarrow> SPS30_class \<times> i2c_bus" where
  "start_measurement self cls bus =
     (let data = CMD_START_MEASUREMENT cls @ [datatype_fmt self, 0x00];
          data = data @ [crc8 (take 2 (drop 2 data))]
      in (cls\<lparr>CMD_START_MEASUREMENT := data\<rparr>, snd (send bus data)))"

text \<open>
  \<open>_parse_uint_data\<close>: the loop over \<open>range(0, len(raw_data), 3)\<close>, the argument
  being \<open>raw_data[i:]\<close>. With one or two bytes left, \<open>raw_data[i+2]\<close> raises.
\<close>

fun parse_uint_loop :: "byte list \<Rightarrow> int list \<Rightarrow> exn + int list" where
  "parse_uint_loop [] data_values = Inr data_values"
| "parse_uint_loop (b0 # b1 # checksum # rest) data_values =
     (if crc8 [uint b0, uint b1] \<noteq> uint checksum then parse_uint_loop rest data_values
      else parse_uint_loop rest (data_values @ [uint b0 * 256 + uint b1]))"
| "parse_uint_loop _ data_values = Inl IndexError"

definition parse_uint_data :: "byte list \<Rightarrow> exn + int list" where
  "parse_uint_data raw_data = parse_uint_loop raw_data []"

text \<open>Four bytes, most significant first, as one 32-bit pattern.\<close>

definition be32 :: "byte list \<Rightarrow> 32 word" where
  "be32 chunk = foldl (\<lambda>w b. push_bit 8 w OR ucast b) 0 chunk"

text \<open>
  \<open>_parse_fp32_data\<close>: the result of \<open>_verify_crc\<close> is not used. The loop runs over
  \<open>range(0, len(raw_data), 6)\<close>, the argument being \<open>raw_data[i:]\<close>;
  \<open>struct.unpack\<close> raises unless the chunk has four bytes.
\<close>

function parse_fp32_loop :: "byte list \<Rightarrow> pyval list \<Rightarrow> exn + pyval list" where
  "parse_fp32_loop raw data_values =
     (if raw = [] then Inr data_values
      else let chunk = take 2 raw @ take 2 (drop 3 raw)
           in if length chunk \<noteq> 4 then Inl StructError
              else parse_fp32_loop (drop 6 raw) (data_values @ [PFloat (be32 chunk)]))"
  by pat_completeness auto
termination
  by (relation "measure (\<lambda>(raw, data_values). length raw)") auto

declare parse_fp32_loop.simps [simp del]

definition parse_fp32_data :: "byte list \<Rightarrow> exn + pyval list" where
  "parse_fp32_data raw_data =
     (let checked = verify_crc raw_data in parse_fp32_loop raw_data [])"

text \<open>\<open>for key, val in zip(keys, vals): d[key] = val\<close>.\<close>

definition store_all :: "pydict \<Rightarrow> (string \<times> pyval) list \<Rightarrow> pydict" where
  "store_all d kvs = foldl (\<lambda>d kv. d(fst kv \<mapsto> snd kv)) d kvs"

text \<open>
  \<open>read_data\<close> returns the dictionary \<open>self.dict_values\<close>, or the empty list when
  anything in its \<open>try\<close> block raised.
\<close>

datatype read_data_result = RetList "pyval list" | RetDict pydict

definition read_data ::
  "SPS30_I2C \<Rightarrow> SPS30_class \<Rightarrow> i2c_bus \<Rightarrow> read_data_result \<times> SPS30_class \<times> i2c_bus" where
  "read_data self cls bus =
     (case send bus CMD_READ_MEASURED_VALUES of
        (Inl e, bus1) \<Rightarrow> (RetList [], cls, bus1)
      | (Inr u, bus1) \<Rightarrow>
          (case readfrom bus1 SPS_ADDR (nbytes_measured_values self) of
             (Inl e, bus2) \<Rightarrow> (RetList [], cls, bus2)
           | (Inr raw_data, bus2) \<Rightarrow>
               (case (if datatype_init self = ''UI16''
                      then map_sum id (map PInt) (parse_uint_data raw_data)
                      else parse_fp32_data raw_data) of
                  Inl e \<Rightarrow> (RetList [], cls, bus2)
                | Inr data_values \<Rightarrow>
                    (let d = store_all (self_dict_values self cls) (zip values_keys data_values)
                     in (RetDict d, cls\<lparr>dict_values := d\<rparr>, bus2)))))"

section \<open>Device information\<close>

text \<open>
  The bit list of \<open>read_status_register\<close>: for each byte, \<open>i\<close> runs over
  \<open>range(7, -1, -1)\<close> and \<open>(byte >> i) & 1 == 1\<close> is appended.
\<close>

definition register_bits :: "byte list \<Rightarrow> bool list" where
  "register_bits register_data =
     concat (map (\<lambda>b. map (\<lambda>i. drop_bit i (uint b) AND 1 = 1) (rev [0..<8])) register_data)"

text \<open>
  \<open>read_status_register\<close>: only the bus calls are inside the \<open>try\<close>; indexing the
  bit list at 21 raises when the frame gave fewer than three data bytes, before any
  entry is stored. \<open>Inr None\<close> is the return value \<open>None\<close>.
\<close>

definition read_status_register ::
  "SPS30_I2C \<Rightarrow> SPS30_class \<Rightarrow> i2c_bus \<Rightarrow> (exn + pydict option) \<times> SPS30_class \<times> i2c_bus" where
  "read_status_register self cls bus =
     (case send bus CMD_READ_STATUS_REGISTER of
        (Inl e, bus1) \<Rightarrow> (Inr None, cls, bus1)
      | (Inr u, bus1) \<Rightarrow>
          (case readfrom bus1 SPS_ADDR NBYTES_READ_STATUS_REGISTER of
             (Inl e, bus2) \<Rightarrow> (Inr None, cls, bus2)
           | (Inr register_raw, bus2) \<Rightarrow>
               (if \<not> verify_crc register_raw then (Inr None, cls, bus2)
                else let register_data = take 2 register_raw @ take 2 (drop 3 register_raw);
                         register_bit = register_bits register_data
                     in if length register_bit \<le> 21 then (Inl IndexError, cls, bus2)
                        else let d = (self_dict_register self cls)
                                       (''Fan speed error'' \<mapsto> PBool (register_bit ! 21),
                                        ''Laser error'' \<mapsto> PBool (register_bit ! 5),
                                        ''Fan error'' \<mapsto> PBool (register_bit ! 4))
                             in (Inr (Some d), cls\<lparr>dict_register := d\<rparr>, bus2))))"

text \<open>
  \<open>read_firmware_version\<close>: the write is outside the \<open>try\<close>, so its exception
  reaches the caller; an \<open>IndexError\<close> of \<open>raw_data[0]\<close> or \<open>raw_data[1]\<close> is caught.
\<close>

definition read_firmware_version ::
  "SPS30_I2C \<Rightarrow> SPS30_class \<Rightarrow> i2c_bus \<Rightarrow> (exn + pydict option) \<times> SPS30_class \<times> i2c_bus" where
  "read_firmware_version self cls bus =
     (case send bus CMD_FIRMWARE_VERSION of
        (Inl e, bus1) \<Rightarrow> (Inl e, cls, bus1)
      | (Inr u, bus1) \<Rightarrow>
          (case readfrom bus1 SPS_ADDR NBYTES_FIRMWARE_VERSION of
             (Inl e, bus2) \<Rightarrow> (Inr None, cls, bus2)
           | (Inr raw_data, bus2) \<Rightarrow>
               (if \<not> verify_crc raw_data then (Inr None, cls, bus2)
                else case raw_data of
                       [] \<Rightarrow> (Inr None, cls, bus2)
                     | [major] \<Rightarrow>
                         (Inr None,
                          cls\<lparr>dict_firmware_version :=
                                (self_dict_firmware_version self cls)
                                  (''major'' \<mapsto> PInt (uint major))\<rparr>,
                          bus2)
                     | major # minor # rest \<Rightarrow>
                         (let d = (self_dict_firmware_version self cls)
                                    (''major'' \<mapsto> PInt (uint major),
                                     ''minor'' \<mapsto> PInt (uint minor))
                          in (Inr (Some d), cls\<lparr>dict_firmware_version := d\<rparr>, bus2)))))"

text \<open>
  The data bytes of a frame: \<open>chars.extend(raw_data[i:i+2])\<close> for \<open>i\<close> in
  \<open>range(0, len(raw_data), 3)\<close>, the argument being \<open>raw_data[i:]\<close>.
\<close>

fun data_bytes :: "byte list \<Rightarrow> byte list" where
  "data_bytes (b0 # b1 # checksum # rest) = b0 # b1 # data_bytes rest"
| "data_bytes raw = take 2 raw"

text \<open>\<open>bytes(chars).decode('ascii')\<close>: a byte above 0x7F raises.\<close>

definition decode_ascii :: "byte list \<Rightarrow> exn + string" where
  "decode_ascii bs =
     (if list_all (\<lambda>b. b < 0x80) bs then Inr (map (\<lambda>b. char_of (unat b)) bs)
      else Inl UnicodeError)"

text \<open>
  \<open>str.strip()\<close> removes leading and trailing whitespace: space, tab, line feed,
  carriage return, vertical tab and form feed in MicroPython. The NUL character is
  not among them.
\<close>

definition is_space :: "char \<Rightarrow> bool" where
  "is_space c = (of_char c \<in> set [0x20, 0x09, 0x0A, 0x0D, 0x0B, 0x0C :: nat])"

definition strip :: "string \<Rightarrow> string" where
  "strip s = rev (dropWhile is_space (rev (dropWhile is_space s)))"

text \<open>\<open>s.rstrip(chars)\<close>: trailing characters that occur in \<open>chars\<close> are removed.\<close>

definition rstrip :: "string \<Rightarrow> string \<Rightarrow> string" where
  "rstrip chars s = rev (dropWhile (\<lambda>c. c \<in> set chars) (rev s))"

text \<open>
  \<open>read_serial_number\<close>: the write is outside the \<open>try\<close>; the string returned is
  \<open>string.rstrip('0')\<close>, which removes the digit zero (0x30).
\<close>

definition read_serial_number ::
  "SPS30_I2C \<Rightarrow> i2c_bus \<Rightarrow> (exn + string option) \<times> i2c_bus" where
  "read_serial_number self bus =
     (case send bus CMD_SERIAL_NUMBER of
        (Inl e, bus1) \<Rightarrow> (Inl e, bus1)
      | (Inr u, bus1) \<Rightarrow>
          (case readfrom bus1 SPS_ADDR NBYTES_SERIAL_NUMBER of
             (Inl e, bus2) \<Rightarrow> (Inr None, bus2)
           | (Inr raw_data, bus2) \<Rightarrow>
               (if \<not> verify_crc raw_data then (Inr None, bus2)
                else case decode_ascii (data_bytes raw_data) of
                       Inl e \<Rightarrow> (Inr None, bus2)
                     | Inr string \<Rightarrow> (Inr (Some (rstrip ''0'' (strip string))), bus2))))"

text \<open>A bus that has seen no call, with the outcomes of the calls to come.\<close>

definition fresh_bus :: "bool list \<Rightarrow> byte list option list \<Rightarrow> i2c_bus" where
  "fresh_bus ws rs = \<lparr>write_log = [], read_log = [], write_plan = ws, read_plan = rs\<rparr>"

section \<open>Notions used to state the properties\<close>

text \<open>
  The status field as a list of 32 bits: the data bytes of groups 0 and 1 of a 6-byte
  frame, each byte expanded most significant bit first.
\<close>

definition status_field :: "byte list \<Rightarrow> bool list" where
  "status_field frame =
     concat (map (\<lambda>b. map (bit b) [7, 6, 5, 4, 3, 2, 1, 0])
                 [frame ! 0, frame ! 1, frame ! 3, frame ! 4])"

text \<open>
  The 3-byte groups of a frame, whether the checksum of a group matches, and the
  big-endian 16-bit value of its two data bytes.
\<close>

fun groups3 :: "byte list \<Rightarrow> (byte \<times> byte \<times> byte) list" where
  "groups3 (b0 # b1 # c # rest) = (b0, b1, c) # groups3 rest"
| "groups3 _ = []"

definition group_ok :: "byte \<times> byte \<times> byte \<Rightarrow> bool" where
  "group_ok g = (case g of (b0, b1, c) \<Rightarrow> crc8 [uint b0, uint b1] = uint c)"

definition group_value :: "byte \<times> byte \<times> byte \<Rightarrow> int" where
  "group_value g = (case g of (b0, b1, c) \<Rightarrow> uint b0 * 256 + uint b1)"

subsection \<open>Example frames and states\<close>

text \<open>
  A serial-number frame of 48 bytes with valid checksums: the characters
  \<open>12345\<close>, three spaces and 24 NUL characters.
\<close>

definition nul_padded_serial_frame :: "byte list" where
  "nul_padded_serial_frame =
     [0x31, 0x32, 0x60, 0x33, 0x34, 0x1F, 0x35, 0x20, 0xC2, 0x20, 0x20, 0xDB]
     @ concat (replicate 12 [0x00, 0x00, 0x81])"

text \<open>
  A serial-number frame of 48 bytes with valid checksums: the characters
  \<open>12345000\<close> and 24 spaces.
\<close>

definition zero_digit_serial_frame :: "byte list" where
  "zero_digit_serial_frame =
     [0x31, 0x32, 0x60, 0x33, 0x34, 0x1F, 0x35, 0x30, 0x81, 0x30, 0x30, 0xF6]
     @ concat (replicate 12 [0x20, 0x20, 0xDB])"

text \<open>An integer measurement frame of 30 bytes with valid checksums, every value 7.\<close>

definition uint_frame_of_sevens :: "byte list" where
  "uint_frame_of_sevens = concat (replicate 10 [0x00, 0x07, 0x16])"

text \<open>
  An integer measurement frame of 30 bytes whose first group has a wrong checksum;
  the nine other groups are valid and hold 257, 258, ..., 265.
\<close>

definition uint_frame_first_group_bad :: "byte list" where
  "uint_frame_first_group_bad =
     [0x00, 0x00, 0x00,
      0x01, 0x01, 0x44, 0x01, 0x02, 0x17, 0x01, 0x03, 0x26,
      0x01, 0x04, 0xB1, 0x01, 0x05, 0x80, 0x01, 0x06, 0xD3,
      0x01, 0x07, 0xE2, 0x01, 0x08, 0xCC, 0x01, 0x09, 0xFD]"

text \<open>A class state in which an earlier read has stored 42 under every channel name.\<close>

definition class_after_read :: SPS30_class where
  "class_after_read =
     class_body\<lparr>dict_values := map_of (map (\<lambda>k. (k, PInt 42)) values_keys)\<rparr>"

text \<open>A status frame and a firmware-version frame with valid checksums.\<close>

definition status_frame_bit21 :: "byte list" where
  "status_frame_bit21 = [0x00, 0x00, 0x81, 0x04, 0x00, 0x02]"

definition firmware_frame :: "byte list" where
  "firmware_frame = [0x02, 0x01, 0x69]"

section \<open>Checksum generation and verification\<close>

lemma crc8_shift_range: "0 \<le> crc8_shift c \<and> crc8_shift c < 256"
proof -
  have "\<And>x::int. 0 \<le> x AND 255 \<and> x AND 255 < 256"
    using AND_upper2 [of 255] by (simp add: order_le_less_trans)
  thus ?thesis by (simp add: crc8_shift_def)
qed

lemma crc8_byte_range: "0 \<le> crc8_byte c b \<and> crc8_byte c b < 256"
  by (simp add: crc8_byte_def upt_rec crc8_shift_range)

lemma foldl_crc8_byte_range:
  "0 \<le> c \<and> c < 256 \<Longrightarrow> 0 \<le> foldl crc8_byte c data \<and> foldl crc8_byte c data < 256"
  by (induction data arbitrary: c) (simp_all add: crc8_byte_range)

lemma crc8_range: "0 \<le> crc8 data \<and> crc8 data < 256"
  unfolding crc8_def by (rule foldl_crc8_byte_range) simp

lemma uint_crc8: "uint (word_of_int (crc8 data) :: byte) = crc8 data"
proof -
  have "crc8 data mod 256 = crc8 data"
    using crc8_range [of data] by simp
  thus ?thesis by (simp add: uint_word_of_int)
qed

lemma verify_groups_crc_group: "verify_groups (crc_group p @ rest) = verify_groups rest"
  by (simp add: crc_group_def uint_crc8)

lemma verify_groups_frame_of_pairs: "verify_groups (frame_of_pairs ps)"
proof (induction ps)
  case Nil
  show ?case by (simp add: frame_of_pairs_def)
next
  case (Cons p ps)
  have "frame_of_pairs (p # ps) = crc_group p @ frame_of_pairs ps"
    by (simp add: frame_of_pairs_def)
  with Cons show ?case by (simp only: verify_groups_crc_group)
qed

lemma length_frame_of_pairs: "length (frame_of_pairs ps) = 3 * length ps"
  by (induction ps) (simp_all add: frame_of_pairs_def crc_group_def)

text \<open>
  C9. For every number of groups (zero included) and every sequence of byte pairs,
  \<open>_verify_crc\<close> accepts the frame made of the groups \<open>(b0, b1, _crc8([b0, b1]))\<close>
  in order.
\<close>

theorem verify_crc_roundtrip: "verify_crc (frame_of_pairs ps) = True"
  by (simp add: verify_crc_def length_frame_of_pairs verify_groups_frame_of_pairs)

theorem verify_crc_roundtrip_witness:
  "verify_crc [0xBE, 0xEF, 0x92, 0x00, 0x00, 0x81] = True \<and> verify_crc [] = True"
proof -
  have f: "frame_of_pairs [(0xBE, 0xEF), (0x00, 0x00)] = [0xBE, 0xEF, 0x92, 0x00, 0x00, 0x81]"
    by code_simp
  have e: "frame_of_pairs [] = []"
    by (simp add: frame_of_pairs_def)
  show ?thesis
    using verify_crc_roundtrip [of "[(0xBE, 0xEF), (0x00, 0x00)]"] verify_crc_roundtrip [of "[]"]
    by (simp only: f e)
qed

section \<open>Command frames\<close>

lemma py_bytes_read_measured: "py_bytes CMD_READ_MEASURED_VALUES = Inr [0x03, 0x00, 0x34]"
  by (simp add: py_bytes_def CMD_READ_MEASURED_VALUES_def)

lemma py_bytes_wakeup: "py_bytes CMD_WAKEUP = Inr [0x11, 0x03]"
  by (simp add: py_bytes_def CMD_WAKEUP_def)

lemma py_bytes_status: "py_bytes CMD_READ_STATUS_REGISTER = Inr [0xD2, 0x06]"
  by (simp add: py_bytes_def CMD_READ_STATUS_REGISTER_def)

lemma py_bytes_serial: "py_bytes CMD_SERIAL_NUMBER = Inr [0xD0, 0x33]"
  by (simp add: py_bytes_def CMD_SERIAL_NUMBER_def)

lemma write_log_send:
  "write_log (snd (send bus cmd)) =
     (case py_bytes cmd of Inl e \<Rightarrow> write_log bus | Inr buf \<Rightarrow> write_log bus @ [(SPS_ADDR, buf)])"
  by (simp add: send_def writeto_def Let_def split: sum.splits list.splits)

lemma write_log_readfrom: "write_log (snd (readfrom bus addr n)) = write_log bus"
  by (simp add: readfrom_def Let_def split: list.splits option.splits)

text \<open>Every call leaves the class attribute three elements longer than it found it.\<close>

lemma start_measurement_grows:
  "length (CMD_START_MEASUREMENT (fst (start_measurement self cls bus))) =
     length (CMD_START_MEASUREMENT cls) + 3"
  by (simp add: start_measurement_def Let_def)

text \<open>
  C1. Every call of \<open>start_measurement\<close> should write the 5-byte frame
  \<open>00 10 fmt 00 crc\<close>. On a freshly loaded class the first call does; the second
  call of the same session writes 8 bytes, and a following call of an integer-mode
  session writes 11 bytes, beginning with the float-mode argument and with the
  checksum of the float-mode argument at its end: the method extends the list bound
  to the class attribute.
\<close>

theorem start_measurement_repeated:
  "(let (cls1, bus1) = start_measurement (init ''FP32'') class_body (fresh_bus [] []);
        (cls2, bus2) = start_measurement (init ''FP32'') cls1 bus1;
        (cls3, bus3) = start_measurement (init ''UI16'') cls2 bus2
    in map snd (write_log bus3)) =
   [[0x00, 0x10, 0x03, 0x00, 0xAC],
    [0x00, 0x10, 0x03, 0x00, 0xAC, 0x03, 0x00, 0xAC],
    [0x00, 0x10, 0x03, 0x00, 0xAC, 0x03, 0x00, 0xAC, 0x05, 0x00, 0xAC]]"
  by code_simp

text \<open>
  C2, as stated: the command frame of \<open>read_data\<close> is the two bytes \<open>03 00\<close>.
  It is not: the frame written has a third byte.
\<close>

theorem read_data_command_counterexample:
  "map snd (write_log (snd (snd (read_data (init ''FP32'') class_body (fresh_bus [] [])))))
     \<noteq> [[0x03, 0x00]]"
  by code_simp

text \<open>
  C2, amended. For every call of \<open>read_data\<close>, whatever the session, the class state
  and the behaviour of the bus, exactly one write is made, to address 0x69, and its
  frame is the three bytes \<open>03 00 34\<close>.
\<close>

theorem read_data_command:
  "write_log (snd (snd (read_data self cls bus))) =
     write_log bus @ [(SPS_ADDR, [0x03, 0x00, 0x34])]"
proof -
  obtain r bus1 where s: "send bus CMD_READ_MEASURED_VALUES = (r, bus1)"
    by (cases "send bus CMD_READ_MEASURED_VALUES")
  have l1: "write_log bus1 = write_log bus @ [(SPS_ADDR, [0x03, 0x00, 0x34])]"
    using write_log_send [of bus CMD_READ_MEASURED_VALUES] s
    by (simp add: py_bytes_read_measured)
  obtain q bus2 where rd: "readfrom bus1 SPS_ADDR (nbytes_measured_values self) = (q, bus2)"
    by (cases "readfrom bus1 SPS_ADDR (nbytes_measured_values self)")
  have l2: "write_log bus2 = write_log bus1"
    using write_log_readfrom [of bus1 SPS_ADDR "nbytes_measured_values self"] rd by simp
  show ?thesis
    using l1 l2 by (simp add: read_data_def s rd Let_def split: sum.splits)
qed

theorem read_data_command_witness:
  "write_log (snd (snd (read_data (init ''UI16'') class_body (fresh_bus [True] [])))) =
     [(0x69, [0x03, 0x00, 0x34])]"
  using read_data_command [of "init ''UI16''" class_body "fresh_bus [True] []"]
  by (simp add: fresh_bus_def SPS_ADDR_def)

text \<open>
  C3, as stated: \<open>wakeup\<close> makes two write calls even when the first one fails.
  It does not: when the first write raises, it is the only one.
\<close>

theorem wakeup_first_write_fails_counterexample:
  "write_log (wakeup (init ''UI16'') (fresh_bus [True] [])) = [(0x69, [0x11, 0x03])]
   \<and> length (write_log (wakeup (init ''UI16'') (fresh_bus [True] []))) \<noteq> 2"
  by code_simp

text \<open>
  C3, amended. \<open>wakeup\<close> makes two write calls carrying \<open>11 03\<close> when the first
  write succeeds, and exactly one when the first write raises.
\<close>

theorem wakeup_writes:
  "write_log (wakeup self bus) =
     write_log bus @
       (if isl (fst (writeto bus SPS_ADDR [0x11, 0x03])) then [(SPS_ADDR, [0x11, 0x03])]
        else [(SPS_ADDR, [0x11, 0x03]), (SPS_ADDR, [0x11, 0x03])])"
  by (simp add: wakeup_def send_def py_bytes_wakeup writeto_def Let_def split: list.splits)

theorem wakeup_writes_witness:
  "write_log (wakeup (init ''UI16'') (fresh_bus [False, True] [])) =
     [(0x69, [0x11, 0x03]), (0x69, [0x11, 0x03])]
   \<and> write_log (wakeup (init ''UI16'') (fresh_bus [True, False] [])) = [(0x69, [0x11, 0x03])]"
  using wakeup_writes [of "init ''UI16''" "fresh_bus [False, True] []"]
        wakeup_writes [of "init ''UI16''" "fresh_bus [True, False] []"]
  by (simp add: fresh_bus_def SPS_ADDR_def writeto_def)

section \<open>Measurement decoding\<close>

lemma parse_fp32_loop_total:
  "length raw mod 6 = 0 \<Longrightarrow>
   \<exists>vs. parse_fp32_loop raw acc = Inr (acc @ vs) \<and> length vs = length raw div 6"
proof (induction raw acc rule: parse_fp32_loop.induct)
  case (1 raw acc)
  show ?case
  proof (cases "raw = []")
    case True
    thus ?thesis by (simp add: parse_fp32_loop.simps)
  next
    case False
    with "1.prems" have ge: "6 \<le> length raw"
      by (cases "length raw < 6") auto
    let ?chunk = "take 2 raw @ take 2 (drop 3 raw)"
    have c: "length ?chunk = 4" using ge by simp
    have m: "length (drop 6 raw) mod 6 = 0"
      using "1.prems" ge by (simp add: le_mod_geq)
    from "1.IH" [OF False refl _ m] c
    obtain vs where vs: "parse_fp32_loop (drop 6 raw) (acc @ [PFloat (be32 ?chunk)])
                           = Inr ((acc @ [PFloat (be32 ?chunk)]) @ vs)"
      and l: "length vs = length (drop 6 raw) div 6"
      by auto
    have "parse_fp32_loop raw acc = Inr (acc @ (PFloat (be32 ?chunk) # vs))"
      using False c vs by (subst parse_fp32_loop.simps) (simp add: Let_def)
    moreover have "length (PFloat (be32 ?chunk) # vs) = length raw div 6"
      using l ge by (simp add: le_div_geq)
    ultimately show ?thesis by blast
  qed
qed

text \<open>
  Whatever \<open>_verify_crc\<close> finds, a frame of 60 bytes is decoded to ten values.
\<close>

lemma parse_fp32_data_unchecked:
  "length raw = 60 \<Longrightarrow> \<exists>vs. parse_fp32_data raw = Inr vs \<and> length vs = 10"
  using parse_fp32_loop_total [of raw "[]"] by (simp add: parse_fp32_data_def)

text \<open>
  C4. A frame that fails the checksum verification should give a CRC error and no
  decoded values. The frame of 60 zero bytes fails the verification (the checksum of
  \<open>00 00\<close> is 0x81), yet \<open>_parse_fp32_data\<close> returns ten values for it, and
  \<open>read_data\<close> of a float-mode session stores them under the ten channel names
  and returns the dictionary.
\<close>

theorem parse_fp32_data_bad_crc:
  "verify_crc (replicate 60 0x00) = False
   \<and> parse_fp32_data (replicate 60 0x00) = Inr (replicate 10 (PFloat 0))
   \<and> (case read_data (init ''FP32'') class_body (fresh_bus [] [Some (replicate 60 0x00)]) of
        (RetDict d, cls, bus) \<Rightarrow>
          map d values_keys = replicate 10 (Some (PFloat 0))
          \<and> map (dict_values cls) values_keys = replicate 10 (Some (PFloat 0))
      | (RetList l, cls, bus) \<Rightarrow> False)"
  by code_simp

text \<open>
  C7. When the write or the read of \<open>read_data\<close> raises, the call returns the empty
  list, which no dictionary result equals, and the class state is untouched; no
  exception and no checksum failure is reported.
\<close>

theorem read_data_transport_error:
  assumes "fst (writeto bus SPS_ADDR [0x03, 0x00, 0x34]) = Inl e
           \<or> fst (readfrom (snd (writeto bus SPS_ADDR [0x03, 0x00, 0x34])) SPS_ADDR
                    (nbytes_measured_values self)) = Inl e"
  shows "fst (read_data self cls bus) = RetList []
         \<and> fst (snd (read_data self cls bus)) = cls
         \<and> (\<forall>d. fst (read_data self cls bus) \<noteq> RetDict d)"
proof -
  obtain r bus1 where w: "writeto bus SPS_ADDR [0x03, 0x00, 0x34] = (r, bus1)"
    by (cases "writeto bus SPS_ADDR [0x03, 0x00, 0x34]")
  obtain q bus2 where rd: "readfrom bus1 SPS_ADDR (nbytes_measured_values self) = (q, bus2)"
    by (cases "readfrom bus1 SPS_ADDR (nbytes_measured_values self)")
  from assms w rd have "r = Inl e \<or> q = Inl e" by simp
  thus ?thesis
    by (auto simp: read_data_def send_def py_bytes_read_measured w rd split: sum.splits)
qed

theorem read_data_transport_error_witness:
  "fst (read_data (init ''FP32'') class_body (fresh_bus [True] [])) = RetList []
   \<and> fst (read_data (init ''UI16'') class_body (fresh_bus [False] [None])) = RetList []"
proof -
  have a: "fst (writeto (fresh_bus [True] []) SPS_ADDR [0x03, 0x00, 0x34]) = Inl OSError"
    by (simp add: writeto_def fresh_bus_def)
  have b: "fst (readfrom (snd (writeto (fresh_bus [False] [None]) SPS_ADDR [0x03, 0x00, 0x34]))
                 SPS_ADDR (nbytes_measured_values (init ''UI16''))) = Inl OSError"
    by (simp add: writeto_def readfrom_def fresh_bus_def)
  show ?thesis
    using read_data_transport_error [of "fresh_bus [True] []" OSError "init ''FP32''" class_body]
          read_data_transport_error [of "fresh_bus [False] [None]" OSError "init ''UI16''" class_body]
          a b
    by blast
qed

lemma parse_uint_loop_groups:
  "length raw mod 3 = 0 \<Longrightarrow>
   parse_uint_loop raw acc = Inr (acc @ map group_value (filter group_ok (groups3 raw)))"
proof (induction raw acc rule: parse_uint_loop.induct)
  case (2 b0 b1 c rest acc)
  from "2.prems" have "length rest mod 3 = 0" by simp
  with "2.IH" show ?case
    by (simp add: group_ok_def group_value_def)
qed simp_all

lemma length_groups3: "length (groups3 raw) = length raw div 3"
  by (induction raw rule: groups3.induct) simp_all

lemma store_all_Cons: "store_all d (kv # kvs) = store_all (d(fst kv \<mapsto> snd kv)) kvs"
  by (simp add: store_all_def)

lemma store_all_notin: "k \<notin> fst ` set kvs \<Longrightarrow> store_all d kvs k = d k"
  unfolding store_all_def by (induction kvs arbitrary: d) auto

lemma store_all_zip_nth:
  "distinct ks \<Longrightarrow> k < length ks \<Longrightarrow>
   store_all d (zip ks vs) (ks ! k) = (if k < length vs then Some (vs ! k) else d (ks ! k))"
proof (induction ks arbitrary: d vs k)
  case Nil
  thus ?case by simp
next
  case (Cons a ks)
  note IH = Cons.IH and dist = Cons.prems(1) and klt = Cons.prems(2)
  show ?case
  proof (cases vs)
    assume "vs = []"
    thus ?thesis by (simp add: store_all_def)
  next
    fix v vs' assume vs: "vs = v # vs'"
    show ?thesis
    proof (cases k)
      assume k0: "k = 0"
      have "a \<notin> fst ` set (zip ks vs')"
        using dist by (auto dest: set_zip_leftD)
      hence "store_all (d(a \<mapsto> v)) (zip ks vs') a = Some v"
        by (simp add: store_all_notin)
      thus ?thesis
        by (simp add: store_all_Cons k0 vs)
    next
      fix k' assume ks: "k = Suc k'"
      have d: "distinct ks" and k': "k' < length ks" and ne: "ks ! k' \<noteq> a"
        using dist klt ks by auto
      have e: "(d(a \<mapsto> v)) (ks ! k') = d (ks ! k')"
        using ne by simp
      have "store_all (d(a \<mapsto> v)) (zip ks vs') (ks ! k') =
              (if k' < length vs' then Some (vs' ! k') else d (ks ! k'))"
        using IH [OF d k', of "d(a \<mapsto> v)" vs'] by (simp only: e)
      thus ?thesis
        by (simp add: store_all_Cons ks vs)
    qed
  qed
qed

lemma filter_take_nth:
  assumes "i < length xs" and "P (xs ! i)"
  shows "filter P xs ! length (filter P (take i xs)) = xs ! i"
    and "length (filter P (take i xs)) < length (filter P xs)"
proof -
  have "xs = take i xs @ xs ! i # drop (Suc i) xs"
    using assms(1) by (rule id_take_nth_drop)
  hence f: "filter P xs = filter P (take i xs) @ xs ! i # filter P (drop (Suc i) xs)"
    using assms(2) by (metis filter.simps(2) filter_append)
  show "filter P xs ! length (filter P (take i xs)) = xs ! i"
    by (subst f) simp
  show "length (filter P (take i xs)) < length (filter P xs)"
    using arg_cong [OF f, of length] by simp
qed

lemma filter_take_skipped:
  assumes "i \<le> length xs"
  shows "length (filter P (take i xs)) \<le> i"
    and "(length (filter P (take i xs)) < i) = (\<exists>m<i. \<not> P (xs ! m))"
proof -
  have l: "length (take i xs) = i" using assms by simp
  show "length (filter P (take i xs)) \<le> i"
    using length_filter_le [of P "take i xs"] l by simp
  have "(length (filter P (take i xs)) < length (take i xs)) = (\<exists>x\<in>set (take i xs). \<not> P x)"
    by (metis filter_True length_filter_less not_less_iff_gr_or_eq)
  also have "\<dots> = (\<exists>m<i. \<not> P (xs ! m))"
  proof
    assume "\<exists>x\<in>set (take i xs). \<not> P x"
    then obtain x where "x \<in> set (take i xs)" and nx: "\<not> P x" by blast
    then obtain m where "m < length (take i xs)" and "take i xs ! m = x"
      by (auto simp: in_set_conv_nth)
    hence "m < i" and "xs ! m = x" using assms by simp_all
    with nx show "\<exists>m<i. \<not> P (xs ! m)" by blast
  next
    assume "\<exists>m<i. \<not> P (xs ! m)"
    then obtain m where m: "m < i" and nm: "\<not> P (xs ! m)" by blast
    have "take i xs ! m \<in> set (take i xs)"
      using m assms by (intro nth_mem) simp
    moreover have "take i xs ! m = xs ! m" using m by simp
    ultimately show "\<exists>x\<in>set (take i xs). \<not> P x" using nm by auto
  qed
  finally show "(length (filter P (take i xs)) < i) = (\<exists>m<i. \<not> P (xs ! m))"
    by (simp only: l)
qed

lemma values_keys_distinct: "distinct values_keys"
  and values_keys_length: "length values_keys = 10"
  by (simp_all add: values_keys_def)

text \<open>
  C10. In integer mode, on a 30-byte response, \<open>read_data\<close> stores the values of
  the groups whose checksum matches under the first channel names, in order: the
  \<open>k\<close>-th channel name receives the value of the \<open>k\<close>-th passing group, and the
  names from the number of passing groups on keep the value they had. A passing group
  \<open>i\<close> is stored under the name at the position that counts the passing groups
  before it, which is earlier than \<open>i\<close> exactly when a group before it was skipped.
\<close>

theorem read_data_uint_skipped_groups:
  assumes ui: "datatype_init self = ''UI16''"
    and w: "writeto bus SPS_ADDR [0x03, 0x00, 0x34] = (Inr (), bus1)"
    and r: "readfrom bus1 SPS_ADDR (nbytes_measured_values self) = (Inr frame, bus2)"
    and len: "length frame = 30"
  shows "\<exists>d. read_data self cls bus = (RetDict d, cls\<lparr>dict_values := d\<rparr>, bus2)
           \<and> (\<forall>k<10. d (values_keys ! k) =
                 (if k < length (filter group_ok (groups3 frame))
                  then Some (PInt (group_value (filter group_ok (groups3 frame) ! k)))
                  else dict_values cls (values_keys ! k)))
           \<and> (\<forall>i<10. group_ok (groups3 frame ! i) \<longrightarrow>
                 d (values_keys ! length (filter group_ok (take i (groups3 frame)))) =
                   Some (PInt (group_value (groups3 frame ! i)))
                 \<and> length (filter group_ok (take i (groups3 frame))) \<le> i
                 \<and> ((length (filter group_ok (take i (groups3 frame))) < i) =
                      (\<exists>m<i. \<not> group_ok (groups3 frame ! m))))"
proof -
  let ?gs = "groups3 frame"
  let ?pass = "filter group_ok ?gs"
  let ?vals = "map (PInt \<circ> group_value) ?pass"
  let ?d = "store_all (dict_values cls) (zip values_keys ?vals)"
  have lg: "length ?gs = 10" by (simp add: length_groups3 len)
  have p: "parse_uint_data frame = Inr (map group_value ?pass)"
    unfolding parse_uint_data_def using parse_uint_loop_groups [of frame "[]"] len by simp
  have rd: "read_data self cls bus = (RetDict ?d, cls\<lparr>dict_values := ?d\<rparr>, bus2)"
    by (simp add: read_data_def send_def py_bytes_read_measured w r ui p Let_def
        self_dict_values_def)
  have keys: "\<And>k. k < 10 \<Longrightarrow> ?d (values_keys ! k) =
       (if k < length ?pass then Some (PInt (group_value (?pass ! k)))
        else dict_values cls (values_keys ! k))"
    using store_all_zip_nth [OF values_keys_distinct, of _ "dict_values cls" ?vals]
    by (simp add: values_keys_length)
  have grp: "\<And>i. i < 10 \<Longrightarrow> group_ok (?gs ! i) \<Longrightarrow>
       ?d (values_keys ! length (filter group_ok (take i ?gs))) = Some (PInt (group_value (?gs ! i)))
       \<and> length (filter group_ok (take i ?gs)) \<le> i
       \<and> ((length (filter group_ok (take i ?gs)) < i) = (\<exists>m<i. \<not> group_ok (?gs ! m)))"
  proof -
    fix i assume i: "i < 10" and ok: "group_ok (?gs ! i)"
    let ?j = "length (filter group_ok (take i ?gs))"
    have il: "i < length ?gs" using i lg by simp
    have j1: "?pass ! ?j = ?gs ! i" and j2: "?j < length ?pass"
      using filter_take_nth [of i ?gs group_ok, OF il ok] by simp_all
    have j3: "?j \<le> i" and j4: "(?j < i) = (\<exists>m<i. \<not> group_ok (?gs ! m))"
      using filter_take_skipped [of i ?gs group_ok] il by simp_all
    have "?j < 10" using j3 i by simp
    from keys [OF this] j1 j2 j3 j4
    show "?d (values_keys ! ?j) = Some (PInt (group_value (?gs ! i)))
       \<and> ?j \<le> i \<and> ((?j < i) = (\<exists>m<i. \<not> group_ok (?gs ! m)))"
      by simp
  qed
  show ?thesis
    using rd keys grp by blast
qed

theorem read_data_uint_skipped_groups_witness:
  "(case fst (read_data (init ''UI16'') class_after_read
                (fresh_bus [] [Some uint_frame_first_group_bad])) of
      RetDict d \<Rightarrow> d ''mc_pm1.0'' = Some (PInt 257) \<and> d ''typical_size'' = Some (PInt 42)
    | RetList l \<Rightarrow> False)
   \<and> \<not> group_ok (groups3 uint_frame_first_group_bad ! 0)
   \<and> group_ok (groups3 uint_frame_first_group_bad ! 1)
   \<and> group_value (groups3 uint_frame_first_group_bad ! 1) = 257"
proof -
  let ?frame = uint_frame_first_group_bad
  let ?self = "init ''UI16''"
  let ?bus = "fresh_bus [] [Some ?frame]"
  let ?bus1 = "?bus\<lparr>write_log := [(SPS_ADDR, [0x03, 0x00, 0x34])]\<rparr>"
  let ?bus2 = "?bus1\<lparr>read_log := [(SPS_ADDR, 30)], read_plan := []\<rparr>"
  have ui: "datatype_init ?self = ''UI16''"
    by (simp add: init_def)
  have nb: "nbytes_measured_values ?self = 30"
    by (simp add: init_def NBYTES_MEASURED_VALUES_INTEGER_def)
  have w: "writeto ?bus SPS_ADDR [0x03, 0x00, 0x34] = (Inr (), ?bus1)"
    by (simp add: writeto_def fresh_bus_def)
  have r: "readfrom ?bus1 SPS_ADDR (nbytes_measured_values ?self) = (Inr ?frame, ?bus2)"
    by (simp add: readfrom_def fresh_bus_def nb)
  have len: "length ?frame = 30"
    by (simp add: uint_frame_first_group_bad_def)
  have g0: "\<not> group_ok (groups3 ?frame ! 0)" by code_simp
  have g1: "group_ok (groups3 ?frame ! 1)" by code_simp
  have v1: "group_value (groups3 ?frame ! 1) = 257" by code_simp
  have j1: "length (filter group_ok (take 1 (groups3 ?frame))) = 0" by code_simp
  have n: "length (filter group_ok (groups3 ?frame)) = 9" by code_simp
  have k0: "values_keys ! 0 = ''mc_pm1.0''" and k9: "values_keys ! 9 = ''typical_size''"
    by (simp_all add: values_keys_def)
  have old: "dict_values class_after_read ''typical_size'' = Some (PInt 42)"
    by code_simp
  from read_data_uint_skipped_groups [OF ui w r len, of class_after_read]
  obtain d where rd: "read_data ?self class_after_read ?bus
                        = (RetDict d, class_after_read\<lparr>dict_values := d\<rparr>, ?bus2)"
    and keys: "\<forall>k<10. d (values_keys ! k) =
                 (if k < length (filter group_ok (groups3 ?frame))
                  then Some (PInt (group_value (filter group_ok (groups3 ?frame) ! k)))
                  else dict_values class_after_read (values_keys ! k))"
    and grp: "\<forall>i<10. group_ok (groups3 ?frame ! i) \<longrightarrow>
                 d (values_keys ! length (filter group_ok (take i (groups3 ?frame)))) =
                   Some (PInt (group_value (groups3 ?frame ! i)))
                 \<and> length (filter group_ok (take i (groups3 ?frame))) \<le> i
                 \<and> ((length (filter group_ok (take i (groups3 ?frame))) < i) =
                      (\<exists>m<i. \<not> group_ok (groups3 ?frame ! m)))"
    by blast
  have "d (values_keys ! length (filter group_ok (take 1 (groups3 ?frame)))) =
          Some (PInt (group_value (groups3 ?frame ! 1)))"
    using grp g1 by simp
  hence a: "d ''mc_pm1.0'' = Some (PInt 257)"
    by (simp only: j1 v1 k0)
  have "d (values_keys ! 9) = dict_values class_after_read (values_keys ! 9)"
    using keys n by simp
  hence b: "d ''typical_size'' = Some (PInt 42)"
    by (simp only: k9 old)
  show ?thesis
    using rd a b g0 g1 v1 by simp
qed

section \<open>Dictionaries and sessions\<close>

text \<open>
  C5, as stated: a successful read on one session leaves the dictionaries of another
  session unchanged. It does not: after a successful \<open>read_data\<close> of an
  integer-mode session, a float-mode session that has read nothing finds 7 under
  \<open>mc_pm1.0\<close>, where \<open>None\<close> was before.
\<close>

theorem dicts_shared_counterexample:
  "init ''UI16'' \<noteq> init ''FP32''
   \<and> (case fst (read_data (init ''UI16'') class_body (fresh_bus [] [Some uint_frame_of_sevens])) of
        RetDict d \<Rightarrow> True | RetList l \<Rightarrow> False)
   \<and> self_dict_values (init ''FP32'') class_body ''mc_pm1.0'' = Some PNone
   \<and> self_dict_values (init ''FP32'')
        (fst (snd (read_data (init ''UI16'') class_body (fresh_bus [] [Some uint_frame_of_sevens]))))
        ''mc_pm1.0'' = Some (PInt 7)"
  by code_simp

lemma read_data_class:
  "fst (read_data a cls bus) = RetDict d \<Longrightarrow>
   fst (snd (read_data a cls bus)) = cls\<lparr>dict_values := d\<rparr>"
  by (cases "datatype_init a = ''UI16''")
     (auto simp: read_data_def Let_def split: prod.splits sum.splits)

lemma read_status_register_class:
  "fst (read_status_register a cls bus) = Inr (Some d) \<Longrightarrow>
   fst (snd (read_status_register a cls bus)) = cls\<lparr>dict_register := d\<rparr>"
  by (auto simp: read_status_register_def Let_def split: prod.splits sum.splits if_splits)

lemma read_firmware_version_class:
  "fst (read_firmware_version a cls bus) = Inr (Some d) \<Longrightarrow>
   fst (snd (read_firmware_version a cls bus)) = cls\<lparr>dict_firmware_version := d\<rparr>"
  by (auto simp: read_firmware_version_def Let_def
      split: prod.splits sum.splits if_splits list.splits)

text \<open>
  C5, amended. The three dictionaries are attributes of the class, one of each for
  all sessions: after a successful \<open>read_data\<close>, \<open>read_status_register\<close> or
  \<open>read_firmware_version\<close> of a session \<open>a\<close>, any session \<open>b\<close> finds in the
  dictionary concerned exactly what the call returned to \<open>a\<close>; the two other
  dictionaries are unchanged.
\<close>

theorem dicts_shared_between_instances:
  "(fst (read_data a cls bus) = RetDict d \<longrightarrow>
      self_dict_values b (fst (snd (read_data a cls bus))) = d
      \<and> self_dict_register b (fst (snd (read_data a cls bus))) = self_dict_register b cls
      \<and> self_dict_firmware_version b (fst (snd (read_data a cls bus)))
          = self_dict_firmware_version b cls)
   \<and> (fst (read_status_register a cls bus) = Inr (Some d) \<longrightarrow>
      self_dict_register b (fst (snd (read_status_register a cls bus))) = d
      \<and> self_dict_values b (fst (snd (read_status_register a cls bus))) = self_dict_values b cls
      \<and> self_dict_firmware_version b (fst (snd (read_status_register a cls bus)))
          = self_dict_firmware_version b cls)
   \<and> (fst (read_firmware_version a cls bus) = Inr (Some d) \<longrightarrow>
      self_dict_firmware_version b (fst (snd (read_firmware_version a cls bus))) = d
      \<and> self_dict_values b (fst (snd (read_firmware_version a cls bus))) = self_dict_values b cls
      \<and> self_dict_register b (fst (snd (read_firmware_version a cls bus)))
          = self_dict_register b cls)"
  by (simp add: read_data_class read_status_register_class read_firmware_version_class
      self_dict_values_def self_dict_register_def self_dict_firmware_version_def)

theorem dicts_shared_between_instances_witness:
  "fst (read_data (init ''UI16'') class_body (fresh_bus [] [Some uint_frame_of_sevens]))
     = RetDict (self_dict_values (init ''FP32'')
         (fst (snd (read_data (init ''UI16'') class_body
                      (fresh_bus [] [Some uint_frame_of_sevens])))))
   \<and> fst (read_status_register (init ''UI16'') class_body (fresh_bus [] [Some status_frame_bit21]))
     = Inr (Some (self_dict_register (init ''FP32'')
         (fst (snd (read_status_register (init ''UI16'') class_body
                      (fresh_bus [] [Some status_frame_bit21]))))))
   \<and> fst (read_firmware_version (init ''UI16'') class_body (fresh_bus [] [Some firmware_frame]))
     = Inr (Some (self_dict_firmware_version (init ''FP32'')
         (fst (snd (read_firmware_version (init ''UI16'') class_body
                      (fresh_bus [] [Some firmware_frame]))))))"
proof -
  let ?a = "init ''UI16''" and ?b = "init ''FP32''"
  let ?v = "read_data ?a class_body (fresh_bus [] [Some uint_frame_of_sevens])"
  let ?s = "read_status_register ?a class_body (fresh_bus [] [Some status_frame_bit21])"
  let ?f = "read_firmware_version ?a class_body (fresh_bus [] [Some firmware_frame])"
  have "case fst ?v of RetDict d \<Rightarrow> True | RetList l \<Rightarrow> False"
    by code_simp
  then obtain dv where dv: "fst ?v = RetDict dv"
    by (cases "fst ?v") simp_all
  have "case fst ?s of Inr (Some d) \<Rightarrow> True | _ \<Rightarrow> False"
    by code_simp
  then obtain ds where ds: "fst ?s = Inr (Some ds)"
    by (auto split: sum.splits option.splits)
  have "case fst ?f of Inr (Some d) \<Rightarrow> True | _ \<Rightarrow> False"
    by code_simp
  then obtain df where df: "fst ?f = Inr (Some df)"
    by (auto split: sum.splits option.splits)
  have "self_dict_values ?b (fst (snd ?v)) = dv"
    using dicts_shared_between_instances
      [of ?a class_body "fresh_bus [] [Some uint_frame_of_sevens]" dv ?b] dv
    by blast
  moreover have "self_dict_register ?b (fst (snd ?s)) = ds"
    using dicts_shared_between_instances
      [of ?a class_body "fresh_bus [] [Some status_frame_bit21]" ds ?b] ds
    by blast
  moreover have "self_dict_firmware_version ?b (fst (snd ?f)) = df"
    using dicts_shared_between_instances
      [of ?a class_body "fresh_bus [] [Some firmware_frame]" df ?b] df
    by blast
  ultimately show ?thesis
    using dv ds df by simp
qed

section \<open>Status register and serial number\<close>

lemma register_bit_iff: "(drop_bit i (uint (b :: byte)) AND 1 = 1) = bit b i"
proof -
  have "bit b i = bit (uint b) i"
    by (auto simp: bit_uint_iff dest: bit_imp_le_length)
  hence "bit b i = odd (drop_bit i (uint b))"
    by (simp only: bit_iff_odd_drop_bit)
  thus ?thesis
    by (simp add: and_one_eq odd_iff_mod_2_eq_one)
qed

lemma range_7_down: "rev [0..<8] = [7, 6, 5, 4, 3, 2, 1, 0]"
  by code_simp

lemma length6: "length (xs :: 'a list) = 6 \<Longrightarrow> \<exists>a b c d e f. xs = [a, b, c, d, e, f]"
  by (auto simp: eval_nat_numeral length_Suc_conv)

lemma register_bits_status_field:
  "register_bits [a, b, d, e] = status_field [a, b, c, d, e, f]"
  by (simp add: register_bits_def status_field_def register_bit_iff range_7_down)

text \<open>
  C8. On a 6-byte frame with valid checksums, \<open>read_status_register\<close> stores, and
  returns, the dictionary in which the fan-speed error is bit 21, the laser error
  bit 5 and the fan error bit 4 of the 32 bits made of the data bytes of groups 0 and
  1, each byte most significant bit first. (The scenario of the claim, bit 21 set and
  bits 4 and 5 clear, is the frame of the witness.)
\<close>

theorem read_status_register_bits:
  assumes w: "writeto bus SPS_ADDR [0xD2, 0x06] = (Inr (), bus1)"
    and r: "readfrom bus1 SPS_ADDR 6 = (Inr frame, bus2)"
    and len: "length frame = 6"
    and crc: "verify_crc frame"
  shows "\<exists>d. read_status_register self cls bus = (Inr (Some d), cls\<lparr>dict_register := d\<rparr>, bus2)
           \<and> length (status_field frame) = 32
           \<and> d ''Fan speed error'' = Some (PBool (status_field frame ! 21))
           \<and> d ''Laser error'' = Some (PBool (status_field frame ! 5))
           \<and> d ''Fan error'' = Some (PBool (status_field frame ! 4))"
proof -
  from len obtain a b c d e f where fr: "frame = [a, b, c, d, e, f]"
    using length6 by blast
  have rb: "register_bits (take 2 frame @ take 2 (drop 3 frame)) = status_field frame"
    by (simp add: fr register_bits_status_field)
  have l: "length (status_field frame) = 32"
    by (simp add: status_field_def)
  show ?thesis
    using crc l
    by (simp add: read_status_register_def send_def py_bytes_status w r
        NBYTES_READ_STATUS_REGISTER_def Let_def rb self_dict_register_def)
qed

theorem read_status_register_bits_witness:
  "(case read_status_register (init ''UI16'') class_body
           (fresh_bus [] [Some status_frame_bit21]) of
      (Inr (Some d), cls, bus) \<Rightarrow>
        map d [''Fan speed error'', ''Laser error'', ''Fan error'']
          = [Some (PBool True), Some (PBool False), Some (PBool False)]
    | _ \<Rightarrow> False)
   \<and> status_field status_frame_bit21 ! 21
   \<and> \<not> status_field status_frame_bit21 ! 5
   \<and> \<not> status_field status_frame_bit21 ! 4"
proof -
  let ?frame = status_frame_bit21
  let ?bus = "fresh_bus [] [Some ?frame]"
  let ?bus1 = "?bus\<lparr>write_log := [(SPS_ADDR, [0xD2, 0x06])]\<rparr>"
  let ?bus2 = "?bus1\<lparr>read_log := [(SPS_ADDR, 6)], read_plan := []\<rparr>"
  have w: "writeto ?bus SPS_ADDR [0xD2, 0x06] = (Inr (), ?bus1)"
    by (simp add: writeto_def fresh_bus_def)
  have r: "readfrom ?bus1 SPS_ADDR 6 = (Inr ?frame, ?bus2)"
    by (simp add: readfrom_def fresh_bus_def)
  have len: "length ?frame = 6"
    by (simp add: status_frame_bit21_def)
  have crc: "verify_crc ?frame" by code_simp
  have s: "status_field ?frame ! 21 \<and> \<not> status_field ?frame ! 5 \<and> \<not> status_field ?frame ! 4"
    by (simp add: status_field_def status_frame_bit21_def)
  from read_status_register_bits [OF w r len crc, of "init ''UI16''" class_body]
  obtain d where
    "read_status_register (init ''UI16'') class_body ?bus =
       (Inr (Some d), class_body\<lparr>dict_register := d\<rparr>, ?bus2)"
    "d ''Fan speed error'' = Some (PBool (status_field ?frame ! 21))"
    "d ''Laser error'' = Some (PBool (status_field ?frame ! 5))"
    "d ''Fan error'' = Some (PBool (status_field ?frame ! 4))"
    by blast
  with s show ?thesis by simp
qed

text \<open>
  C6, as stated: a 48-byte frame with valid checksums that carries \<open>12345\<close>, spaces
  and NUL padding decodes to \<open>12345\<close>. It does not: NUL is not whitespace and is not
  the digit zero, so the 32 characters are returned as they are.
\<close>

theorem read_serial_number_nul_counterexample:
  "length nul_padded_serial_frame = 48
   \<and> verify_crc nul_padded_serial_frame
   \<and> decode_ascii (data_bytes nul_padded_serial_frame)
       = Inr (''12345   '' @ replicate 24 (CHR 0x00))
   \<and> fst (read_serial_number (init ''UI16'') (fresh_bus [] [Some nul_padded_serial_frame]))
       = Inr (Some (''12345   '' @ replicate 24 (CHR 0x00)))
   \<and> fst (read_serial_number (init ''UI16'') (fresh_bus [] [Some nul_padded_serial_frame]))
       \<noteq> Inr (Some ''12345'')"
  by code_simp

lemma rstrip_single: "rstrip [c] s = rev (dropWhile (\<lambda>x. x = c) (rev s))"
  by (simp add: rstrip_def)

lemma rstrip_append_replicate:
  "\<exists>k. s = rstrip [c] s @ replicate k c"
proof -
  define d where "d = rev (dropWhile (\<lambda>x. x = c) (rev s))"
  define t where "t = rev (takeWhile (\<lambda>x. x = c) (rev s))"
  have "rev s = rev t @ rev d"
    by (simp add: d_def t_def)
  hence "rev (rev s) = rev (rev t @ rev d)"
    by (rule arg_cong)
  hence dec: "s = d @ t" by simp
  have "\<forall>x\<in>set t. x = c"
    by (auto simp: t_def dest: set_takeWhileD)
  hence "t = replicate (length t) c"
    by (simp add: replicate_length_same)
  with dec have "s = d @ replicate (length t) c" by simp
  thus ?thesis
    unfolding rstrip_single d_def [symmetric] by blast
qed

lemma rstrip_last: "rstrip [c] s = [] \<or> last (rstrip [c] s) \<noteq> c"
proof (cases "dropWhile (\<lambda>x. x = c) (rev s)")
  case Nil
  thus ?thesis by (simp add: rstrip_single)
next
  case (Cons y ys)
  have "\<not> (hd (dropWhile (\<lambda>x. x = c) (rev s)) = c)"
    by (rule hd_dropWhile) (simp add: Cons)
  hence "y \<noteq> c" by (simp add: Cons)
  thus ?thesis by (simp add: rstrip_single Cons)
qed

lemma rstrip_id: "s \<noteq> [] \<Longrightarrow> last s \<notin> set cs \<Longrightarrow> rstrip cs s = s"
proof -
  assume "s \<noteq> []" and "last s \<notin> set cs"
  hence "dropWhile (\<lambda>c. c \<in> set cs) (rev s) = rev s"
    by (cases "rev s") (simp_all add: last_rev [symmetric] hd_rev)
  thus ?thesis by (simp add: rstrip_def)
qed

lemma strip_id: "s \<noteq> [] \<Longrightarrow> \<not> is_space (hd s) \<Longrightarrow> \<not> is_space (last s) \<Longrightarrow> strip s = s"
proof -
  assume ne: "s \<noteq> []" and h: "\<not> is_space (hd s)" and l: "\<not> is_space (last s)"
  have a: "dropWhile is_space s = s"
    using ne h by (cases s) simp_all
  have "dropWhile is_space (rev s) = rev s"
    using ne l by (cases "rev s") (simp_all add: hd_rev)
  thus ?thesis by (simp add: strip_def a)
qed

lemma nul_not_space: "\<not> is_space (CHR 0x00)"
  and nul_not_zero: "CHR 0x00 \<noteq> CHR ''0''"
  by (simp_all add: is_space_def)

text \<open>Trailing digits \<open>0\<close> are removed once the spaces after them are.\<close>

lemma read_serial_number_zero_digits:
  "length zero_digit_serial_frame = 48
   \<and> verify_crc zero_digit_serial_frame
   \<and> decode_ascii (data_bytes zero_digit_serial_frame)
       = Inr (''12345000'' @ replicate 24 (CHR '' ''))
   \<and> fst (read_serial_number (init ''UI16'') (fresh_bus [] [Some zero_digit_serial_frame]))
       = Inr (Some ''12345'')"
  by code_simp

text \<open>
  C6, amended. Given a 48-byte frame with valid checksums and an ASCII payload,
  \<open>read_serial_number\<close> returns the payload with leading and trailing whitespace
  removed and then every trailing digit \<open>0\<close> (0x30) removed: the result followed by
  some number of \<open>0\<close> digits is the whitespace-trimmed payload, and the result does
  not end in \<open>0\<close>. NUL characters are not removed: a payload that starts with a
  non-blank character and ends in NUL, such as \<open>12345\<close>, spaces and NUL padding, is
  returned unchanged.
\<close>

theorem read_serial_number_trim:
  assumes w: "writeto bus SPS_ADDR [0xD0, 0x33] = (Inr (), bus1)"
    and r: "readfrom bus1 SPS_ADDR 48 = (Inr frame, bus2)"
    and len: "length frame = 48"
    and crc: "verify_crc frame"
    and asc: "decode_ascii (data_bytes frame) = Inr payload"
  shows "\<exists>s k. read_serial_number self bus = (Inr (Some s), bus2)
           \<and> strip payload = s @ replicate k (CHR ''0'')
           \<and> (s = [] \<or> last s \<noteq> CHR ''0'')
           \<and> (payload \<noteq> [] \<and> \<not> is_space (hd payload) \<and> last payload = CHR 0x00
                \<longrightarrow> s = payload)"
proof -
  let ?s = "rstrip ''0'' (strip payload)"
  have rd: "read_serial_number self bus = (Inr (Some ?s), bus2)"
    using crc by (simp add: read_serial_number_def send_def py_bytes_serial w r asc
        NBYTES_SERIAL_NUMBER_def)
  obtain k where k: "strip payload = ?s @ replicate k (CHR ''0'')"
    using rstrip_append_replicate [of "strip payload" "CHR ''0''"] by blast
  have l: "?s = [] \<or> last ?s \<noteq> CHR ''0''"
    by (rule rstrip_last)
  have n: "payload \<noteq> [] \<and> \<not> is_space (hd payload) \<and> last payload = CHR 0x00 \<longrightarrow> ?s = payload"
  proof
    assume a: "payload \<noteq> [] \<and> \<not> is_space (hd payload) \<and> last payload = CHR 0x00"
    hence "strip payload = payload"
      by (simp add: strip_id nul_not_space)
    moreover have "rstrip ''0'' payload = payload"
      using a by (intro rstrip_id) (simp_all add: nul_not_zero)
    ultimately show "?s = payload" by simp
  qed
  show ?thesis using rd k l n by blast
qed

theorem read_serial_number_trim_witness:
  "fst (read_serial_number (init ''FP32'') (fresh_bus [] [Some nul_padded_serial_frame]))
     = Inr (Some (''12345   '' @ replicate 24 (CHR 0x00)))"
proof -
  let ?frame = nul_padded_serial_frame
  let ?payload = "''12345   '' @ replicate 24 (CHR 0x00)"
  let ?bus = "fresh_bus [] [Some ?frame]"
  let ?bus1 = "?bus\<lparr>write_log := [(SPS_ADDR, [0xD0, 0x33])]\<rparr>"
  let ?bus2 = "?bus1\<lparr>read_log := [(SPS_ADDR, 48)], read_plan := []\<rparr>"
  have w: "writeto ?bus SPS_ADDR [0xD0, 0x33] = (Inr (), ?bus1)"
    by (simp add: writeto_def fresh_bus_def)
  have r: "readfrom ?bus1 SPS_ADDR 48 = (Inr ?frame, ?bus2)"
    by (simp add: readfrom_def fresh_bus_def)
  have len: "length ?frame = 48" by code_simp
  have crc: "verify_crc ?frame" by code_simp
  have asc: "decode_ascii (data_bytes ?frame) = Inr ?payload" by code_simp
  have p: "?payload \<noteq> [] \<and> \<not> is_space (hd ?payload) \<and> last ?payload = CHR 0x00"
    by code_simp
  from read_serial_number_trim [OF w r len crc asc, of "init ''FP32''"] p
  obtain s where "read_serial_number (init ''FP32'') ?bus = (Inr (Some s), ?bus2)"
    and "s = ?payload"
    by blast
  thus ?thesis by simp
qed

end
